theory Spec2Isabelle
  imports Main "HOL-Library.Word"
begin

unbundle bit_operations_syntax

section \<open>Machine types, error numbers and kernel constants\<close>

text \<open>
  The driver is built for a 64-bit kernel: \<open>unsigned long\<close>, \<open>irq_hw_number_t\<close>,
  \<open>resource_size_t\<close> and \<open>u64\<close> are 64-bit words, \<open>unsigned int\<close> and \<open>u32\<close> are
  32-bit words. Arithmetic on words wraps around as in C.
\<close>

type_synonym u8 = "8 word"
type_synonym u16 = "16 word"
type_synonym u32 = "32 word"
type_synonym u64 = "64 word"

text \<open>
  Modelled from the spec: the error numbers are defined in \<open>errno-base.h\<close>, which is not
  among the files. The spec's taxonomy names InvalidArgument, PermissionDenied,
  ResourceExhausted and IOError; they are the kernel's \<open>EINVAL\<close>, \<open>EPERM\<close> or \<open>EACCES\<close>,
  \<open>ENOMEM\<close> and \<open>EIO\<close>, and \<open>EFAULT\<close> is the error of a failed copy from or to the caller.
  A failing function returns the negated number.
\<close>

definition EPERM :: int where "EPERM = 1"
definition EIO :: int where "EIO = 5"
definition ENOMEM :: int where "ENOMEM = 12"
definition EACCES :: int where "EACCES = 13"
definition EFAULT :: int where "EFAULT = 14"
definition EINVAL :: int where "EINVAL = 22"

section \<open>Data of the CDX bus (\<open>cdx_bus.h\<close>, \<open>msi.h\<close>, \<open>ioport.h\<close>)\<close>

text \<open>
  Modelled from the spec: the structures of this section are declared in the bus and MSI
  headers, which are not among the files. The fields are those the two files read and the
  spec's data model lists; the widths are the kernel's.

  \<open>struct resource\<close>: an inclusive address range and its flag word.
\<close>

record resource =
  res_start :: u64
  res_end :: u64
  res_flags :: u64

text \<open>
  \<open>struct cdx_device\<close>, the fields the two files read: the position on the bus, the
  requestor ID, the resource array with its fill count, and the number of MSI vectors.
\<close>

record cdx_device =
  bus_num :: u8
  dev_num :: u8
  req_id :: u32
  res :: "resource list"
  res_count :: u8
  num_msi :: u32

record msi_msg =
  address_lo :: u32
  address_hi :: u32
  data :: u32

text \<open>
  \<open>struct msi_desc\<close>: the local vector index (a \<open>u16\<close>) and the cached message. The
  back pointer \<open>desc->dev\<close> is passed as an explicit device argument.
\<close>

record msi_desc =
  msi_index :: u16
  msg :: msi_msg

record cdx_msi_config =
  conf_addr :: u64
  conf_data :: u32
  conf_msi_index :: u16

text \<open>\<open>struct cdx_device_config\<close>: the \<open>type\<close> tag selects the member of the union.\<close>

datatype cdx_device_config =
  CDX_DEV_MSI_CONF cdx_msi_config
| CDX_DEV_MSI_ENABLE bool

text \<open>
  What a function does to the rest of the kernel is recorded as a trace of events, in
  program order: calls into the bus controller, the MSI core, the allocator and the log.
\<close>

datatype event =
  Dev_configure u8 u8 cdx_device_config
| Dev_err string
| Dev_warn string int
| Msi_lock_descs
| Msi_unlock_descs
| Msi_domain_alloc_irqs u32
| Kfree_regions
| Cdx_dev_reset
| Vfio_cdx_irqs_cleanup

section \<open>\<open>drivers/cdx/cdx_msi.c\<close>\<close>

definition REQ_ID_SHIFT :: nat where "REQ_ID_SHIFT = 10"

definition cdx_domain_calc_hwirq :: "cdx_device \<Rightarrow> msi_desc \<Rightarrow> u64" where
  "cdx_domain_calc_hwirq dev desc =
     push_bit REQ_ID_SHIFT (ucast (req_id dev) :: u64) OR ucast (msi_index desc)"

text \<open>
  \<open>cdx_msi_write_msg\<close> returns \<open>void\<close>: the caller gets back the descriptor with the
  cached message, nothing else. The controller's \<open>dev_configure\<close> operation is a
  parameter (it is reached through the \<open>ops\<close> table); its return code is only tested
  for the log line.
\<close>

definition cdx_msi_write_msg ::
  "(u8 \<Rightarrow> u8 \<Rightarrow> cdx_device_config \<Rightarrow> int) \<Rightarrow> cdx_device \<Rightarrow> msi_desc \<Rightarrow> msi_msg
     \<Rightarrow> msi_desc \<times> event list" where
  "cdx_msi_write_msg dev_configure cdx_dev msi_desc0 m =
     (let msi_desc = msi_desc0\<lparr>msg := m\<rparr>;
          dev_config = CDX_DEV_MSI_CONF
            \<lparr>conf_addr = push_bit 32 (ucast (address_hi (msg msi_desc)) :: u64)
                           OR ucast (address_lo (msg msi_desc)),
             conf_data = data (msg msi_desc),
             conf_msi_index = msi_index msi_desc\<rparr>;
          ret = dev_configure (bus_num cdx_dev) (dev_num cdx_dev) dev_config
      in (msi_desc,
          Dev_configure (bus_num cdx_dev) (dev_num cdx_dev) dev_config #
          (if ret \<noteq> 0 then [Dev_err ''Write MSI failed to CDX controller''] else [])))"

text \<open>
  \<open>cdx_msi_domain_alloc_irqs\<close>. The MSI core is not part of these files, so its three
  entry points are parameters: the return code of \<open>msi_setup_device_data\<close>, the result
  of \<open>msi_first_desc(dev, MSI_DESC_ALL)\<close> (\<open>None\<close> for a null pointer) and the return
  code of \<open>msi_domain_alloc_irqs\<close> for a given count.
\<close>

definition cdx_msi_domain_alloc_irqs ::
  "int \<Rightarrow> msi_desc option \<Rightarrow> (u32 \<Rightarrow> int) \<Rightarrow> u32 \<Rightarrow> int \<times> event list" where
  "cdx_msi_domain_alloc_irqs msi_setup_device_data msi_first_desc msi_domain_alloc_irqs
       irq_count =
     (let ret = msi_setup_device_data in
      if ret \<noteq> 0 then (ret, [])
      else
        let ret = (if msi_first_desc \<noteq> None then - EINVAL else ret) in
        if ret \<noteq> 0 then (ret, [Msi_lock_descs, Msi_unlock_descs])
        else
          let ret = msi_domain_alloc_irqs irq_count in
          (ret,
           [Msi_lock_descs, Msi_unlock_descs, Msi_domain_alloc_irqs irq_count] @
           (if ret \<noteq> 0 then [Dev_err ''Failed to allocate IRQs''] else [])))"

fun is_alloc_irqs :: "event \<Rightarrow> bool" where
  "is_alloc_irqs (Msi_domain_alloc_irqs n) = True"
| "is_alloc_irqs _ = False"


text \<open>Controllers and an MSI core used as concrete inputs.\<close>

definition dev_configure_ok :: "u8 \<Rightarrow> u8 \<Rightarrow> cdx_device_config \<Rightarrow> int" where
  "dev_configure_ok b d conf = 0"

definition dev_configure_eio :: "u8 \<Rightarrow> u8 \<Rightarrow> cdx_device_config \<Rightarrow> int" where
  "dev_configure_eio b d conf = - EIO"

definition alloc_irqs_ok :: "u32 \<Rightarrow> int" where
  "alloc_irqs_ok n = 0"

section \<open>Configuration and constants used by \<open>drivers/vfio/cdx/main.c\<close>\<close>

text \<open>
  \<open>PAGE_SHIFT\<close> is fixed by the kernel configuration and \<open>VFIO_CDX_OFFSET_SHIFT\<close> by
  \<open>private.h\<close>; neither value is in the two files, so both are parameters.
\<close>

record kconfig =
  PAGE_SHIFT :: nat
  VFIO_CDX_OFFSET_SHIFT :: nat

text \<open>
  Modelled from the spec: \<open>PAGE_SIZE\<close> and \<open>PAGE_MASK\<close> are kernel macros that are not among
  the files. The page size is the mapping granularity of the spec, \<open>1UL << PAGE_SHIFT\<close>;
  the page mask clears the bits below it.
\<close>

definition PAGE_SIZE :: "kconfig \<Rightarrow> u64" where
  "PAGE_SIZE c = push_bit (PAGE_SHIFT c) 1"

definition PAGE_MASK :: "kconfig \<Rightarrow> u64" where
  "PAGE_MASK c = NOT (PAGE_SIZE c - 1)"

text \<open>
  The shifts the code computes are defined in C, and every region index fits above the
  offset bits, when the offset shift is at least the page shift, their difference is below
  the 32 bits of the constant \<open>1U\<close>, and the offset shift leaves the eight bits of
  \<open>res_count\<close> free in a 64-bit offset.
\<close>

definition kconfig_ok :: "kconfig \<Rightarrow> bool" where
  "kconfig_ok c \<longleftrightarrow>
     PAGE_SHIFT c \<le> VFIO_CDX_OFFSET_SHIFT c
     \<and> VFIO_CDX_OFFSET_SHIFT c - PAGE_SHIFT c < 32
     \<and> VFIO_CDX_OFFSET_SHIFT c \<le> 56"

text \<open>
  Modelled from the spec: the flag bits are defined in \<open>uapi/linux/vfio.h\<close>, \<open>ioport.h\<close>
  and \<open>mm.h\<close>, which are not among the files. The spec gives the region capability flags
  READABLE, WRITABLE and MAP_CAPABLE as a bitmask, the notification flag of the interrupt
  group, the read-only flag of a source region and the read and write access of a mapping
  request; each is one bit, at the position the kernel gives it.
\<close>

definition VFIO_REGION_INFO_FLAG_READ :: u32 where "VFIO_REGION_INFO_FLAG_READ = 1"
definition VFIO_REGION_INFO_FLAG_WRITE :: u32 where "VFIO_REGION_INFO_FLAG_WRITE = 2"
definition VFIO_REGION_INFO_FLAG_MMAP :: u32 where "VFIO_REGION_INFO_FLAG_MMAP = 4"
definition VFIO_IRQ_INFO_EVENTFD :: u32 where "VFIO_IRQ_INFO_EVENTFD = 1"
definition IORESOURCE_READONLY :: u64 where "IORESOURCE_READONLY = 0x4000"
definition VM_READ :: u64 where "VM_READ = 1"
definition VM_WRITE :: u64 where "VM_WRITE = 2"

text \<open>
  Modelled from the spec: \<open>struct vfio_cdx_region\<close> and \<open>struct vfio_cdx_device\<close> are
  declared in \<open>private.h\<close>, which is not among the files. A region descriptor has the
  physical base address, the size, the raw flags of the resource (\<open>type\<close>) and the
  capability flags; a session owns the array of region descriptors.
\<close>

record vfio_cdx_region =
  region_flags :: u32
  region_type :: u32
  region_addr :: u64
  region_size :: u64

record vfio_cdx_device =
  regions :: "vfio_cdx_region list"

text \<open>
  Modelled from the spec: \<open>struct vm_area_struct\<close> is declared in \<open>mm_types.h\<close>, which
  is not among the files. It is the mapping request of the spec: the offset as a page
  number, the address range that gives the length, and the requested access; the fields
  are those \<open>main.c\<close> reads and writes. The page protection is kept symbolic:
  \<open>pgprot_device\<close> is an architecture macro.
\<close>

datatype pgprot = Pgprot u64 | Pgprot_device pgprot

record vm_area_struct =
  vm_start :: u64
  vm_end :: u64
  vm_pgoff :: u64
  vm_flags :: u64
  vm_page_prot :: pgprot

text \<open>
  The mapping functions end in \<open>return -EINVAL\<close> or in the tail call
  \<open>return io_remap_pfn_range(vma, addr, pfn, size, prot)\<close>, whose arguments are kept.
  \<open>Out_of_bounds\<close> stands for a read past the end of the region array, which C leaves
  undefined.
\<close>

datatype mmap_result =
  Return int
| Io_remap_pfn_range vm_area_struct u64 u64 u64 pgprot
| Out_of_bounds

text \<open>
  Modelled from the spec: \<open>struct vfio_irq_info\<close> is declared in \<open>uapi/linux/vfio.h\<close>,
  which is not among the files. The request carries the declared size, the flags, the
  group index and the count, four \<open>__u32\<close> fields, so the minimum size
  \<open>offsetofend(struct vfio_irq_info, count)\<close> is 16 bytes.
\<close>

record vfio_irq_info =
  info_argsz :: u32
  info_flags :: u32
  info_index :: u32
  info_count :: u32

definition vfio_irq_info_minsz :: u64 where "vfio_irq_info_minsz = 16"

section \<open>\<open>drivers/vfio/cdx/main.c\<close>\<close>

text \<open>
  Modelled from the spec: \<open>resource_size\<close> is an inline function of \<open>ioport.h\<close>, which is
  not among the files; the size of the inclusive range is \<open>end - start + 1\<close>.
\<close>

definition resource_size :: "resource \<Rightarrow> u64" where
  "resource_size r = res_end r - res_start r + 1"

text \<open>A zeroed element of the array that \<open>kcalloc\<close> returns.\<close>

definition zero_region :: vfio_cdx_region where
  "zero_region = \<lparr>region_flags = 0, region_type = 0, region_addr = 0, region_size = 0\<rparr>"

text \<open>The body of the loop of \<open>vfio_cdx_open_device\<close>, for the resource \<open>r\<close> and slot \<open>g0\<close>.\<close>

definition open_region :: "kconfig \<Rightarrow> resource \<Rightarrow> vfio_cdx_region \<Rightarrow> vfio_cdx_region" where
  "open_region c r g0 =
     (let g1 = g0\<lparr>region_addr := res_start r\<rparr>;
          g2 = g1\<lparr>region_size := resource_size r\<rparr>;
          g3 = g2\<lparr>region_type := ucast (res_flags r)\<rparr>;
          g4 = (if region_addr g3 AND NOT (PAGE_MASK c) = 0
                   \<and> region_size g3 AND NOT (PAGE_MASK c) = 0
                then g3\<lparr>region_flags := region_flags g3 OR VFIO_REGION_INFO_FLAG_MMAP\<rparr>
                else g3);
          g5 = g4\<lparr>region_flags := region_flags g4 OR VFIO_REGION_INFO_FLAG_READ\<rparr>
      in if res_flags r AND IORESOURCE_READONLY = 0
         then g5\<lparr>region_flags := region_flags g5 OR VFIO_REGION_INFO_FLAG_WRITE\<rparr>
         else g5)"

text \<open>
  \<open>vfio_cdx_open_device\<close>: \<open>kcalloc_ok\<close> says whether the allocation succeeds. The loop
  runs over \<open>i = 0, ..., count - 1\<close> and updates slot \<open>i\<close> of the zeroed array.
\<close>

definition vfio_cdx_open_device ::
  "kconfig \<Rightarrow> bool \<Rightarrow> vfio_cdx_device \<Rightarrow> cdx_device \<Rightarrow> int + vfio_cdx_device" where
  "vfio_cdx_open_device c kcalloc_ok vdev cdx_dev =
     (let count = unat (res_count cdx_dev) in
      if \<not> kcalloc_ok then Inl (- ENOMEM)
      else Inr (vdev\<lparr>regions :=
        fold (\<lambda>i regs. regs[i := open_region c (res cdx_dev ! i) (regs ! i)])
          [0..<count] (replicate count zero_region)\<rparr>))"

text \<open>The loop reads \<open>res[i]\<close> for \<open>i < res_count\<close>; the bus fills that many entries.\<close>

definition cdx_device_ok :: "cdx_device \<Rightarrow> bool" where
  "cdx_device_ok dev \<longleftrightarrow> unat (res_count dev) \<le> length (res dev)"

definition vfio_cdx_regions_cleanup :: "event list \<Rightarrow> event list" where
  "vfio_cdx_regions_cleanup t = t @ [Kfree_regions]"

text \<open>
  \<open>vfio_cdx_close_device\<close> returns \<open>void\<close>; the result is the trace of what it did. The
  parameter is the return code of \<open>cdx_dev_reset\<close>.
\<close>

definition vfio_cdx_close_device :: "int \<Rightarrow> event list" where
  "vfio_cdx_close_device cdx_dev_reset =
     (let t0 = vfio_cdx_regions_cleanup [];
          t1 = t0 @ [Cdx_dev_reset];
          ret = cdx_dev_reset;
          t2 = (if ret \<noteq> 0
                then t1 @ [Dev_warn ''VFIO_CDX: reset device has failed'' ret]
                else t1)
      in t2 @ [Vfio_cdx_irqs_cleanup])"

text \<open>
  \<open>vfio_cdx_ioctl_get_irq_info\<close>: \<open>arg\<close> is what \<open>copy_from_user\<close> reads (\<open>None\<close> when
  it faults), \<open>copy_to_user_ok\<close> whether the reply can be written. On success the result is
  the structure written back to the caller.
\<close>

definition vfio_cdx_ioctl_get_irq_info ::
  "cdx_device \<Rightarrow> vfio_irq_info option \<Rightarrow> bool \<Rightarrow> int + vfio_irq_info" where
  "vfio_cdx_ioctl_get_irq_info cdx_dev arg copy_to_user_ok =
     (case arg of
        None \<Rightarrow> Inl (- EFAULT)
      | Some info0 \<Rightarrow>
          if ucast (info_argsz info0) < vfio_irq_info_minsz then Inl (- EINVAL)
          else if info_index info0 \<ge> 1 then Inl (- EINVAL)
          else
            let info1 = info0\<lparr>info_flags := VFIO_IRQ_INFO_EVENTFD\<rparr>;
                info2 = info1\<lparr>info_count := num_msi cdx_dev\<rparr>
            in if \<not> copy_to_user_ok then Inl (- EFAULT) else Inr info2)"

text \<open>
  Modelled from the spec: \<open>vfio_cdx_index_to_offset\<close> is defined in \<open>private.h\<close>, which
  is not among the files; the spec gives it as "offset = index << OFFSET_SHIFT", on the
  64-bit offset of the region-info reply.
\<close>

definition vfio_cdx_index_to_offset :: "kconfig \<Rightarrow> u32 \<Rightarrow> u64" where
  "vfio_cdx_index_to_offset c index = push_bit (VFIO_CDX_OFFSET_SHIFT c) (ucast index)"

text \<open>
  The \<open>mmap\<close> system call hands the driver the offset as a page number:
  \<open>vm_pgoff = offset >> PAGE_SHIFT\<close>.
\<close>

definition offset_to_pgoff :: "kconfig \<Rightarrow> u64 \<Rightarrow> u64" where
  "offset_to_pgoff c off = drop_bit (PAGE_SHIFT c) off"

text \<open>
  The first statement of \<open>vfio_cdx_mmap\<close>: the region index is the page number shifted
  right, stored in an \<open>unsigned int\<close>.
\<close>

definition mmap_index :: "kconfig \<Rightarrow> u64 \<Rightarrow> u32" where
  "mmap_index c pgoff = ucast (drop_bit (VFIO_CDX_OFFSET_SHIFT c - PAGE_SHIFT c) pgoff)"

definition vfio_cdx_mmap_mmio :: "kconfig \<Rightarrow> vfio_cdx_region \<Rightarrow> vm_area_struct \<Rightarrow> mmap_result" where
  "vfio_cdx_mmap_mmio c region vma =
     (let size = vm_end vma - vm_start vma;
          pgoff = vm_pgoff vma
            AND ucast ((push_bit (VFIO_CDX_OFFSET_SHIFT c - PAGE_SHIFT c) 1 :: u32) - 1);
          base = push_bit (PAGE_SHIFT c) pgoff
      in if region_size region < PAGE_SIZE c \<or> base + size > region_size region
         then Return (- EINVAL)
         else
           let vma1 = vma\<lparr>vm_pgoff := drop_bit (PAGE_SHIFT c) (region_addr region) + pgoff\<rparr>;
               vma2 = vma1\<lparr>vm_page_prot := Pgprot_device (vm_page_prot vma1)\<rparr>
           in Io_remap_pfn_range vma2 (vm_start vma2) (vm_pgoff vma2) size (vm_page_prot vma2))"

text \<open>The third test of \<open>vfio_cdx_mmap\<close>: a read mapping of a region without the read flag.\<close>

definition mmap_read_denied :: "vfio_cdx_region \<Rightarrow> vm_area_struct \<Rightarrow> bool" where
  "mmap_read_denied region vma \<longleftrightarrow>
     region_flags region AND VFIO_REGION_INFO_FLAG_READ = 0 \<and> vm_flags vma AND VM_READ \<noteq> 0"

definition vfio_cdx_mmap ::
  "kconfig \<Rightarrow> vfio_cdx_device \<Rightarrow> cdx_device \<Rightarrow> vm_area_struct \<Rightarrow> mmap_result" where
  "vfio_cdx_mmap c vdev cdx_dev vma =
     (let index = mmap_index c (vm_pgoff vma) in
      if index \<ge> ucast (res_count cdx_dev) then Return (- EINVAL)
      else if length (regions vdev) \<le> unat index then Out_of_bounds
      else
        let region = regions vdev ! unat index in
        if region_flags region AND VFIO_REGION_INFO_FLAG_MMAP = 0 then Return (- EINVAL)
        else if mmap_read_denied region vma then Return (- EINVAL)
        else if region_flags region AND VFIO_REGION_INFO_FLAG_WRITE = 0
                \<and> vm_flags vma AND VM_WRITE \<noteq> 0 then Return (- EINVAL)
        else vfio_cdx_mmap_mmio c region vma)"

text \<open>
  A mapping request of a user process: the range is ordered and lies in the lower half
  of the address space.
\<close>

definition vma_user_range :: "vm_area_struct \<Rightarrow> bool" where
  "vma_user_range vma \<longleftrightarrow> vm_start vma \<le> vm_end vma \<and> vm_end vma \<le> 2 ^ 63"

section \<open>Concrete devices, sessions and requests\<close>

text \<open>
  The configuration of a kernel with 4 KiB pages and an offset shift of 40. The device of
  the two-region scenario: a page-aligned writable region and a misaligned read-only one,
  with the session that opening it yields. A device with one page-aligned read-only
  region, with its session. A mapping request of a user process.
\<close>

definition scenario_config :: kconfig where
  "scenario_config = \<lparr>PAGE_SHIFT = 12, VFIO_CDX_OFFSET_SHIFT = 40\<rparr>"

definition scenario_device :: cdx_device where
  "scenario_device =
     \<lparr>bus_num = 0, dev_num = 3, req_id = 5,
      res = [\<lparr>res_start = 0x1000, res_end = 0x1FFF, res_flags = 0x200\<rparr>,
             \<lparr>res_start = 0x1234, res_end = 0x1243, res_flags = 0x4200\<rparr>],
      res_count = 2, num_msi = 4\<rparr>"

definition scenario_session :: vfio_cdx_device where
  "scenario_session =
     \<lparr>regions =
        [\<lparr>region_flags = 7, region_type = 0x200, region_addr = 0x1000, region_size = 0x1000\<rparr>,
         \<lparr>region_flags = 1, region_type = 0x4200, region_addr = 0x1234, region_size = 0x10\<rparr>]\<rparr>"

definition user_vma :: "u64 \<Rightarrow> u64 \<Rightarrow> u64 \<Rightarrow> vm_area_struct" where
  "user_vma pgoff len flags =
     \<lparr>vm_start = 0x7F0000000000, vm_end = 0x7F0000000000 + len, vm_pgoff = pgoff,
      vm_flags = flags, vm_page_prot = Pgprot 0\<rparr>"

definition readonly_device :: cdx_device where
  "readonly_device =
     \<lparr>bus_num = 0, dev_num = 4, req_id = 6,
      res = [\<lparr>res_start = 0x2000, res_end = 0x2FFF, res_flags = 0x4200\<rparr>],
      res_count = 1, num_msi = 1\<rparr>"

definition readonly_session :: vfio_cdx_device where
  "readonly_session =
     \<lparr>regions =
        [\<lparr>region_flags = 5, region_type = 0x4200, region_addr = 0x2000, region_size = 0x1000\<rparr>]\<rparr>"

section \<open>Hardware interrupt numbers\<close>

lemma index_below_shift:
  fixes i :: u16
  assumes "i < 1024"
  shows "drop_bit 10 (ucast i :: u64) = 0"
proof -
  have "i < 2 ^ 10" using assms by simp
  then have "i AND mask 10 = i" by (rule less_mask_eq)
  then have "take_bit 10 i = i" by (simp add: take_bit_eq_mask)
  then have "drop_bit 10 i = 0" by (simp add: take_bit_eq_self_iff_drop_bit_eq_0)
  then have "ucast (drop_bit 10 i) = (0 :: u64)" by simp
  then show ?thesis by (simp add: ucast_drop_bit_eq)
qed

lemma index_low_bits:
  fixes i :: u16
  assumes "i < 1024"
  shows "take_bit 10 (ucast i :: u64) = ucast i"
proof -
  have "i < 2 ^ 10" using assms by simp
  then have "i AND mask 10 = i" by (rule less_mask_eq)
  then have "take_bit 10 i = i" by (simp add: take_bit_eq_mask)
  then have "ucast (take_bit 10 i) = (ucast i :: u64)" by simp
  then show ?thesis by (simp add: unsigned_take_bit_eq)
qed

lemma req_id_survives_shift:
  fixes r :: u32
  shows "drop_bit 10 (push_bit 10 (ucast r :: u64)) = ucast r"
  by (rule bit_word_eqI) (auto simp add: bit_simps dest: bit_imp_le_length)

lemma hwirq_high_part:
  "msi_index desc < 1024 \<Longrightarrow> drop_bit 10 (cdx_domain_calc_hwirq dev desc) = ucast (req_id dev)"
  unfolding cdx_domain_calc_hwirq_def REQ_ID_SHIFT_def
  by (simp only: drop_bit_or index_below_shift req_id_survives_shift) simp

lemma hwirq_low_part:
  "msi_index desc < 1024 \<Longrightarrow> take_bit 10 (cdx_domain_calc_hwirq dev desc) = ucast (msi_index desc)"
proof -
  assume h: "msi_index desc < 1024"
  have "take_bit 10 (cdx_domain_calc_hwirq dev desc) = take_bit 10 (ucast (msi_index desc) :: u64)"
    unfolding cdx_domain_calc_hwirq_def REQ_ID_SHIFT_def
    by (rule bit_word_eqI) (auto simp add: bit_simps)
  then show ?thesis using index_low_bits [OF h] by simp
qed

lemma ucast_u32_u64_inj: "(ucast (a :: u32) :: u64) = ucast b \<Longrightarrow> a = b"
  by (drule arg_cong [where f = "ucast :: u64 \<Rightarrow> u32"]) (simp add: ucast_up_ucast_id is_up)

lemma ucast_u16_u64_inj: "(ucast (a :: u16) :: u64) = ucast b \<Longrightarrow> a = b"
  by (drule arg_cong [where f = "ucast :: u64 \<Rightarrow> u16"]) (simp add: ucast_up_ucast_id is_up)

text \<open>
  C1: two different devices of one domain must never get equal hardware interrupt
  numbers, whatever their vectors; the comment of \<open>cdx_domain_calc_hwirq\<close> promises a
  globally unique identifier. The code does not keep the promise: the \<open>u16\<close> index is
  ORed into the shifted requestor ID without a bound, so vector 1024 of the device with
  requestor ID 0 and vector 0 of the device with requestor ID 1 both get number 1024.
  Both vectors are vectors of their devices (index below \<open>num_msi\<close>).
\<close>

theorem hwirq_collision:
  "\<lparr>bus_num = 0, dev_num = 0, req_id = 0, res = [], res_count = 0, num_msi = 1025\<rparr>
     \<noteq> \<lparr>bus_num = 0, dev_num = 1, req_id = 1, res = [], res_count = 0, num_msi = 1\<rparr>
   \<and> (ucast (msi_index \<lparr>msi_index = 1024,
          msg = \<lparr>address_lo = 0, address_hi = 0, data = 0\<rparr>\<rparr>) :: u32) < 1025
   \<and> (ucast (msi_index \<lparr>msi_index = 0,
          msg = \<lparr>address_lo = 0, address_hi = 0, data = 0\<rparr>\<rparr>) :: u32) < 1
   \<and> cdx_domain_calc_hwirq
        \<lparr>bus_num = 0, dev_num = 0, req_id = 0, res = [], res_count = 0, num_msi = 1025\<rparr>
        \<lparr>msi_index = 1024, msg = \<lparr>address_lo = 0, address_hi = 0, data = 0\<rparr>\<rparr>
     = cdx_domain_calc_hwirq
        \<lparr>bus_num = 0, dev_num = 1, req_id = 1, res = [], res_count = 0, num_msi = 1\<rparr>
        \<lparr>msi_index = 0, msg = \<lparr>address_lo = 0, address_hi = 0, data = 0\<rparr>\<rparr>"
  by (simp add: cdx_domain_calc_hwirq_def REQ_ID_SHIFT_def)

text \<open>
  Where the promise does hold: for vectors whose local index is below 1024 (the ten bits
  the shift leaves free) the number determines both the requestor ID and the index.
\<close>

lemma hwirq_unique_below_bound:
  assumes "msi_index va < 1024" and "msi_index vb < 1024"
  shows "(cdx_domain_calc_hwirq a va = cdx_domain_calc_hwirq b vb)
         = (req_id a = req_id b \<and> msi_index va = msi_index vb)"
proof
  assume eq: "cdx_domain_calc_hwirq a va = cdx_domain_calc_hwirq b vb"
  have "(ucast (req_id a) :: u64) = ucast (req_id b)"
    using hwirq_high_part [OF assms(1), of a] hwirq_high_part [OF assms(2), of b] eq by simp
  moreover have "(ucast (msi_index va) :: u64) = ucast (msi_index vb)"
    using hwirq_low_part [OF assms(1), of a] hwirq_low_part [OF assms(2), of b] eq by simp
  ultimately show "req_id a = req_id b \<and> msi_index va = msi_index vb"
    by (simp add: ucast_u32_u64_inj ucast_u16_u64_inj)
next
  assume "req_id a = req_id b \<and> msi_index va = msi_index vb"
  then show "cdx_domain_calc_hwirq a va = cdx_domain_calc_hwirq b vb"
    by (simp add: cdx_domain_calc_hwirq_def)
qed

section \<open>Programming an MSI message\<close>

lemma unat_ucast_u32_u64: "unat (ucast (w :: u32) :: u64) = unat w"
proof -
  have "unat w < 2 ^ 32" using unsigned_less [of w] by simp
  then have "unat w < 2 ^ 64" by (rule less_trans) simp
  then show ?thesis by (simp add: unsigned_ucast_eq take_bit_nat_eq_self)
qed

lemma pack_addr_nat:
  fixes hi lo :: u32
  shows "unat (push_bit 32 (ucast hi :: u64) OR ucast lo) = unat hi * 2 ^ 32 + unat lo"
proof -
  have disj: "\<And>n. \<not> bit (push_bit 32 (ucast hi :: u64)) n \<or> \<not> bit (ucast lo :: u64) n"
    by (auto simp add: bit_simps dest: bit_imp_le_length)
  have eq: "push_bit 32 (ucast hi :: u64) OR ucast lo = push_bit 32 (ucast hi) + ucast lo"
    by (rule disjunctive_add [symmetric]) (rule disj)
  have hi: "unat hi < 2 ^ 32" using unsigned_less [of hi] by simp
  have lo: "unat lo < 2 ^ 32" using unsigned_less [of lo] by simp
  have bound: "unat hi * 2 ^ 32 + unat lo < 2 ^ 64"
    using hi lo by simp
  have "unat (push_bit 32 (ucast hi :: u64) + ucast lo) = unat hi * 2 ^ 32 + unat lo"
    using bound
    by (simp add: unat_word_ariths push_bit_eq_mult unat_ucast_u32_u64)
  then show ?thesis by (simp only: eq)
qed

text \<open>
  C6, as stated: when the controller fails, the error reaches the caller of
  \<open>write_message\<close>. This fails: with a controller whose \<open>dev_configure\<close> returns \<open>-EIO\<close>
  the function hands its caller exactly what it hands back when the controller succeeds
  (it returns \<open>void\<close>); the failure only adds a line to the log.
\<close>

theorem write_msg_error_counterexample:
  "dev_configure_eio 0 3
      (CDX_DEV_MSI_CONF \<lparr>conf_addr = 0x800000000, conf_data = 7, conf_msi_index = 2\<rparr>) \<noteq> 0
   \<and> fst (cdx_msi_write_msg dev_configure_eio
        \<lparr>bus_num = 0, dev_num = 3, req_id = 5, res = [], res_count = 0, num_msi = 4\<rparr>
        \<lparr>msi_index = 2, msg = \<lparr>address_lo = 0, address_hi = 0, data = 0\<rparr>\<rparr>
        \<lparr>address_lo = 0, address_hi = 8, data = 7\<rparr>)
     = fst (cdx_msi_write_msg dev_configure_ok
        \<lparr>bus_num = 0, dev_num = 3, req_id = 5, res = [], res_count = 0, num_msi = 4\<rparr>
        \<lparr>msi_index = 2, msg = \<lparr>address_lo = 0, address_hi = 0, data = 0\<rparr>\<rparr>
        \<lparr>address_lo = 0, address_hi = 8, data = 7\<rparr>)
   \<and> snd (cdx_msi_write_msg dev_configure_eio
        \<lparr>bus_num = 0, dev_num = 3, req_id = 5, res = [], res_count = 0, num_msi = 4\<rparr>
        \<lparr>msi_index = 2, msg = \<lparr>address_lo = 0, address_hi = 0, data = 0\<rparr>\<rparr>
        \<lparr>address_lo = 0, address_hi = 8, data = 7\<rparr>)
     = [Dev_configure 0 3
          (CDX_DEV_MSI_CONF \<lparr>conf_addr = 0x800000000, conf_data = 7, conf_msi_index = 2\<rparr>),
        Dev_err ''Write MSI failed to CDX controller'']"
  by (simp add: cdx_msi_write_msg_def dev_configure_eio_def dev_configure_ok_def EIO_def)

text \<open>
  C6, amended: \<open>write_message\<close> caches the message in the descriptor, packs the 64-bit
  address \<open>hi * 2^32 + lo\<close> from the two 32-bit halves (nothing is lost), and makes
  exactly one \<open>dev_configure\<close> call at the bus controller, tagged with the vector index
  and carrying the message data. When the controller fails the call is not retried, the
  failure is written to the log, and nothing is returned to the caller.
\<close>

theorem write_msg_programs_controller:
  "cdx_msi_write_msg dev_configure cdx_dev desc m =
     (let dev_config = CDX_DEV_MSI_CONF
            \<lparr>conf_addr = word_of_nat (unat (address_hi m) * 2 ^ 32 + unat (address_lo m)),
             conf_data = data m,
             conf_msi_index = msi_index desc\<rparr>
      in (desc\<lparr>msg := m\<rparr>,
          Dev_configure (bus_num cdx_dev) (dev_num cdx_dev) dev_config #
          (if dev_configure (bus_num cdx_dev) (dev_num cdx_dev) dev_config = 0 then []
           else [Dev_err ''Write MSI failed to CDX controller''])))
   \<and> unat (word_of_nat (unat (address_hi m) * 2 ^ 32 + unat (address_lo m)) :: u64)
       = unat (address_hi m) * 2 ^ 32 + unat (address_lo m)"
proof -
  let ?a = "push_bit 32 (ucast (address_hi m) :: u64) OR ucast (address_lo m)"
  have "?a = word_of_nat (unat ?a)" by simp
  then have a: "?a = word_of_nat (unat (address_hi m) * 2 ^ 32 + unat (address_lo m))"
    by (simp only: pack_addr_nat)
  have "unat ?a = unat (address_hi m) * 2 ^ 32 + unat (address_lo m)"
    by (rule pack_addr_nat)
  then have b: "unat (word_of_nat (unat (address_hi m) * 2 ^ 32 + unat (address_lo m)) :: u64)
       = unat (address_hi m) * 2 ^ 32 + unat (address_lo m)"
    by (simp only: a [symmetric])
  have main: "cdx_msi_write_msg dev_configure cdx_dev desc m =
     (let dev_config = CDX_DEV_MSI_CONF
            \<lparr>conf_addr = ?a, conf_data = data m, conf_msi_index = msi_index desc\<rparr>
      in (desc\<lparr>msg := m\<rparr>,
          Dev_configure (bus_num cdx_dev) (dev_num cdx_dev) dev_config #
          (if dev_configure (bus_num cdx_dev) (dev_num cdx_dev) dev_config = 0 then []
           else [Dev_err ''Write MSI failed to CDX controller''])))"
    by (simp add: cdx_msi_write_msg_def Let_def)
  show ?thesis
    using main b by (simp only: a)
qed

theorem write_msg_programs_controller_witness:
  "cdx_msi_write_msg dev_configure_eio
        \<lparr>bus_num = 0, dev_num = 3, req_id = 5, res = [], res_count = 0, num_msi = 4\<rparr>
        \<lparr>msi_index = 2, msg = \<lparr>address_lo = 0, address_hi = 0, data = 0\<rparr>\<rparr>
        \<lparr>address_lo = 0x10, address_hi = 8, data = 7\<rparr>
     = (\<lparr>msi_index = 2, msg = \<lparr>address_lo = 0x10, address_hi = 8, data = 7\<rparr>\<rparr>,
        [Dev_configure 0 3
          (CDX_DEV_MSI_CONF \<lparr>conf_addr = 0x800000010, conf_data = 7, conf_msi_index = 2\<rparr>),
         Dev_err ''Write MSI failed to CDX controller''])"
  using write_msg_programs_controller
    [of dev_configure_eio
        "\<lparr>bus_num = 0, dev_num = 3, req_id = 5, res = [], res_count = 0, num_msi = 4\<rparr>"
        "\<lparr>msi_index = 2, msg = \<lparr>address_lo = 0, address_hi = 0, data = 0\<rparr>\<rparr>"
        "\<lparr>address_lo = 0x10, address_hi = 8, data = 7\<rparr>"]
  by (simp add: dev_configure_eio_def EIO_def)

section \<open>Allocating the vectors of a device\<close>

text \<open>
  C8: allocation is a single epoch. Once the MSI data of the device is set up
  (\<open>msi_setup_device_data\<close> returned 0, as it does for a device that already has
  descriptors), the allocation fails with \<open>-EINVAL\<close> if the device already has a
  descriptor, and then \<open>msi_domain_alloc_irqs\<close> is not called; only when there is no
  descriptor are all \<open>irq_count\<close> vectors allocated together, by one call through the
  MSI domain, whose result is returned.
\<close>

theorem alloc_irqs_single_epoch:
  "(setup = 0 \<and> first \<noteq> None \<longrightarrow>
      cdx_msi_domain_alloc_irqs setup first alloc n
        = (- EINVAL, [Msi_lock_descs, Msi_unlock_descs]))
   \<and> (first \<noteq> None \<longrightarrow>
      filter is_alloc_irqs (snd (cdx_msi_domain_alloc_irqs setup first alloc n)) = [])
   \<and> (setup = 0 \<and> first = None \<longrightarrow>
      fst (cdx_msi_domain_alloc_irqs setup first alloc n) = alloc n
      \<and> filter is_alloc_irqs (snd (cdx_msi_domain_alloc_irqs setup first alloc n))
          = [Msi_domain_alloc_irqs n])"
  by (simp add: cdx_msi_domain_alloc_irqs_def Let_def EINVAL_def)

theorem alloc_irqs_single_epoch_witness:
  "cdx_msi_domain_alloc_irqs 0
       (Some \<lparr>msi_index = 0, msg = \<lparr>address_lo = 0, address_hi = 0, data = 0\<rparr>\<rparr>) alloc_irqs_ok 4
     = (- EINVAL, [Msi_lock_descs, Msi_unlock_descs])
   \<and> fst (cdx_msi_domain_alloc_irqs 0 None alloc_irqs_ok 4) = 0
   \<and> filter is_alloc_irqs (snd (cdx_msi_domain_alloc_irqs 0 None alloc_irqs_ok 4))
       = [Msi_domain_alloc_irqs 4]"
  using alloc_irqs_single_epoch
      [of 0 "Some \<lparr>msi_index = 0, msg = \<lparr>address_lo = 0, address_hi = 0, data = 0\<rparr>\<rparr>"
          alloc_irqs_ok 4]
    alloc_irqs_single_epoch [of 0 None alloc_irqs_ok 4]
  by (simp add: alloc_irqs_ok_def)

section \<open>Closing a session\<close>

text \<open>
  C7: closing a session frees the region array, then resets the device at the bus
  controller, then cleans up the interrupts, in this order. A failing reset is reported
  by a warning between the reset and the interrupt cleanup, and the cleanup still runs.
\<close>

theorem close_device_order:
  "vfio_cdx_close_device ret =
     [Kfree_regions, Cdx_dev_reset]
     @ (if ret = 0 then [] else [Dev_warn ''VFIO_CDX: reset device has failed'' ret])
     @ [Vfio_cdx_irqs_cleanup]"
  by (simp add: vfio_cdx_close_device_def vfio_cdx_regions_cleanup_def Let_def)

theorem close_device_order_witness:
  "vfio_cdx_close_device (- EIO) =
     [Kfree_regions, Cdx_dev_reset, Dev_warn ''VFIO_CDX: reset device has failed'' (- 5),
      Vfio_cdx_irqs_cleanup]
   \<and> vfio_cdx_close_device 0 = [Kfree_regions, Cdx_dev_reset, Vfio_cdx_irqs_cleanup]"
  using close_device_order [of "- EIO"] close_device_order [of 0]
  by (simp add: EIO_def)

section \<open>The interrupt-group query\<close>

text \<open>
  C9: GET_IRQ_INFO on a request that could be read from the caller fails with
  \<open>-EINVAL\<close> for every group index 1 or larger. For index 0, a declared size that covers
  the fields up to \<open>count\<close> and a writable reply, it succeeds and returns the
  notification flag \<open>VFIO_IRQ_INFO_EVENTFD\<close> and a count equal to the number of
  interrupt vectors of the device.
\<close>

theorem get_irq_info_single_group:
  "(1 \<le> info_index info \<longrightarrow>
      vfio_cdx_ioctl_get_irq_info dev (Some info) copy_ok = Inl (- EINVAL))
   \<and> (info_index info = 0 \<and> vfio_irq_info_minsz \<le> ucast (info_argsz info) \<longrightarrow>
      vfio_cdx_ioctl_get_irq_info dev (Some info) True
        = Inr (info\<lparr>info_flags := VFIO_IRQ_INFO_EVENTFD, info_count := num_msi dev\<rparr>))"
  by (auto simp add: vfio_cdx_ioctl_get_irq_info_def Let_def)

theorem get_irq_info_single_group_witness:
  "vfio_cdx_ioctl_get_irq_info
       \<lparr>bus_num = 0, dev_num = 3, req_id = 5, res = [], res_count = 0, num_msi = 4\<rparr>
       (Some \<lparr>info_argsz = 16, info_flags = 0, info_index = 1, info_count = 0\<rparr>) True
     = Inl (- 22)
   \<and> vfio_cdx_ioctl_get_irq_info
       \<lparr>bus_num = 0, dev_num = 3, req_id = 5, res = [], res_count = 0, num_msi = 4\<rparr>
       (Some \<lparr>info_argsz = 16, info_flags = 0, info_index = 0, info_count = 0\<rparr>) True
     = Inr \<lparr>info_argsz = 16, info_flags = 1, info_index = 0, info_count = 4\<rparr>"
  using get_irq_info_single_group
      [of "\<lparr>info_argsz = 16, info_flags = 0, info_index = 1, info_count = 0\<rparr>"
          "\<lparr>bus_num = 0, dev_num = 3, req_id = 5, res = [], res_count = 0, num_msi = 4\<rparr>" True]
    get_irq_info_single_group
      [of "\<lparr>info_argsz = 16, info_flags = 0, info_index = 0, info_count = 0\<rparr>"
          "\<lparr>bus_num = 0, dev_num = 3, req_id = 5, res = [], res_count = 0, num_msi = 4\<rparr>" True]
  by (simp add: EINVAL_def VFIO_IRQ_INFO_EVENTFD_def vfio_irq_info_minsz_def)

section \<open>Opening a session\<close>

lemma not_page_mask: "NOT (PAGE_MASK c) = mask (PAGE_SHIFT c)"
  by (simp add: PAGE_MASK_def PAGE_SIZE_def mask_eq_decr_exp push_bit_eq_mult)

lemma page_aligned_iff:
  "(w AND NOT (PAGE_MASK c) = 0) = (2 ^ PAGE_SHIFT c dvd unat w)"
  by (simp add: not_page_mask and_mask_dvd_nat)

lemma open_loop_length:
  "length (fold (\<lambda>i regs. regs[i := open_region c (rs ! i) (regs ! i)]) [0..<n] regs)
     = length regs"
  by (induction n) simp_all

lemma open_loop_nth:
  "n \<le> length regs \<Longrightarrow> i < length regs \<Longrightarrow>
   fold (\<lambda>i regs. regs[i := open_region c (rs ! i) (regs ! i)]) [0..<n] regs ! i
     = (if i < n then open_region c (rs ! i) (regs ! i) else regs ! i)"
proof (induction n)
  case 0
  then show ?case by simp
next
  case (Suc n)
  then show ?case
    by (cases "i = n") (simp_all add: open_loop_length)
qed

lemma open_device_regions:
  assumes "vfio_cdx_open_device c ok vdev0 dev = Inr vdev"
  shows "length (regions vdev) = unat (res_count dev)"
    and "i < unat (res_count dev) \<Longrightarrow>
         regions vdev ! i = open_region c (res dev ! i) zero_region"
proof -
  let ?n = "unat (res_count dev)"
  let ?loop = "fold (\<lambda>i regs. regs[i := open_region c (res dev ! i) (regs ! i)])
                 [0..<?n] (replicate ?n zero_region)"
  from assms have r: "regions vdev = ?loop"
    by (auto simp add: vfio_cdx_open_device_def Let_def split: if_splits)
  show "length (regions vdev) = ?n"
    unfolding r by (simp add: open_loop_length)
  show "regions vdev ! i = open_region c (res dev ! i) zero_region" if "i < ?n"
    unfolding r using that
    by (simp add: open_loop_nth)
qed

lemma open_region_zero:
  "open_region c r zero_region =
     \<lparr>region_flags =
        (if 2 ^ PAGE_SHIFT c dvd unat (res_start r) \<and> 2 ^ PAGE_SHIFT c dvd unat (resource_size r)
         then VFIO_REGION_INFO_FLAG_MMAP else 0)
        OR VFIO_REGION_INFO_FLAG_READ
        OR (if res_flags r AND IORESOURCE_READONLY = 0 then VFIO_REGION_INFO_FLAG_WRITE else 0),
      region_type = ucast (res_flags r),
      region_addr = res_start r,
      region_size = resource_size r\<rparr>"
  by (simp add: open_region_def zero_region_def Let_def page_aligned_iff or.assoc)

lemma flag_tests:
  "((if a then VFIO_REGION_INFO_FLAG_MMAP else 0) OR VFIO_REGION_INFO_FLAG_READ
      OR (if w then VFIO_REGION_INFO_FLAG_WRITE else 0)) AND VFIO_REGION_INFO_FLAG_MMAP \<noteq> 0 \<longleftrightarrow> a"
  "((if a then VFIO_REGION_INFO_FLAG_MMAP else 0) OR VFIO_REGION_INFO_FLAG_READ
      OR (if w then VFIO_REGION_INFO_FLAG_WRITE else 0)) AND VFIO_REGION_INFO_FLAG_WRITE \<noteq> 0 \<longleftrightarrow> w"
  "((if a then VFIO_REGION_INFO_FLAG_MMAP else 0) OR VFIO_REGION_INFO_FLAG_READ
      OR (if w then VFIO_REGION_INFO_FLAG_WRITE else 0)) AND VFIO_REGION_INFO_FLAG_READ \<noteq> 0"
  "((if a then VFIO_REGION_INFO_FLAG_MMAP else 0) OR VFIO_REGION_INFO_FLAG_READ
      OR (if w then VFIO_REGION_INFO_FLAG_WRITE else 0))
     AND NOT (VFIO_REGION_INFO_FLAG_READ OR VFIO_REGION_INFO_FLAG_WRITE OR VFIO_REGION_INFO_FLAG_MMAP) = 0"
  by (simp_all add: VFIO_REGION_INFO_FLAG_MMAP_def VFIO_REGION_INFO_FLAG_READ_def
      VFIO_REGION_INFO_FLAG_WRITE_def)

lemma two_iterations: "[0..<2] = [0, Suc 0]" "replicate 2 x = [x, x]"
  by (simp_all add: upt_rec numeral_2_eq_2)

lemma scenario_open:
  "vfio_cdx_open_device scenario_config True \<lparr>regions = []\<rparr> scenario_device = Inr scenario_session"
  by (simp add: vfio_cdx_open_device_def scenario_config_def scenario_device_def scenario_session_def
      two_iterations open_region_def zero_region_def resource_size_def PAGE_MASK_def PAGE_SIZE_def
      VFIO_REGION_INFO_FLAG_MMAP_def VFIO_REGION_INFO_FLAG_READ_def
      VFIO_REGION_INFO_FLAG_WRITE_def IORESOURCE_READONLY_def Let_def)

text \<open>
  C5: for every region descriptor built at session open, the address and size are those
  of the resource (size = end - start + 1); the mapping flag is set if and only if both
  the address and the size are multiples of the page size; the write flag is set if and
  only if the resource is not flagged read-only; the read flag is set; no other flag is
  set. In the two-region scenario the aligned writable region gets read, write and
  mapping flags, the misaligned read-only region the read flag only.
\<close>

theorem open_device_region_flags:
  assumes "cdx_device_ok dev"
    and "vfio_cdx_open_device c ok vdev0 dev = Inr vdev"
    and "i < unat (res_count dev)"
  shows "region_addr (regions vdev ! i) = res_start (res dev ! i)
    \<and> region_size (regions vdev ! i) = res_end (res dev ! i) - res_start (res dev ! i) + 1
    \<and> ((region_flags (regions vdev ! i) AND VFIO_REGION_INFO_FLAG_MMAP \<noteq> 0)
         = (2 ^ PAGE_SHIFT c dvd unat (region_addr (regions vdev ! i))
            \<and> 2 ^ PAGE_SHIFT c dvd unat (region_size (regions vdev ! i))))
    \<and> ((region_flags (regions vdev ! i) AND VFIO_REGION_INFO_FLAG_WRITE \<noteq> 0)
         = (res_flags (res dev ! i) AND IORESOURCE_READONLY = 0))
    \<and> region_flags (regions vdev ! i) AND VFIO_REGION_INFO_FLAG_READ \<noteq> 0
    \<and> region_flags (regions vdev ! i)
         AND NOT (VFIO_REGION_INFO_FLAG_READ OR VFIO_REGION_INFO_FLAG_WRITE
                  OR VFIO_REGION_INFO_FLAG_MMAP) = 0"
proof -
  let ?r = "res dev ! i"
  let ?a = "2 ^ PAGE_SHIFT c dvd unat (res_start ?r) \<and> 2 ^ PAGE_SHIFT c dvd unat (resource_size ?r)"
  let ?w = "res_flags ?r AND IORESOURCE_READONLY = 0"
  have r: "regions vdev ! i = open_region c ?r zero_region"
    using open_device_regions(2) [OF assms(2) assms(3)] .
  have addr: "region_addr (regions vdev ! i) = res_start ?r"
    and size: "region_size (regions vdev ! i) = resource_size ?r"
    and flags: "region_flags (regions vdev ! i) =
      (if ?a then VFIO_REGION_INFO_FLAG_MMAP else 0) OR VFIO_REGION_INFO_FLAG_READ
      OR (if ?w then VFIO_REGION_INFO_FLAG_WRITE else 0)"
    unfolding r open_region_zero by simp_all
  have size': "region_size (regions vdev ! i) = res_end ?r - res_start ?r + 1"
    by (simp only: size resource_size_def)
  have mmap: "(region_flags (regions vdev ! i) AND VFIO_REGION_INFO_FLAG_MMAP \<noteq> 0)
      = (2 ^ PAGE_SHIFT c dvd unat (region_addr (regions vdev ! i))
         \<and> 2 ^ PAGE_SHIFT c dvd unat (region_size (regions vdev ! i)))"
    by (simp only: flags flag_tests(1) addr size)
  have fw: "(region_flags (regions vdev ! i) AND VFIO_REGION_INFO_FLAG_WRITE \<noteq> 0) = ?w"
    by (simp only: flags flag_tests(2))
  have fr: "region_flags (regions vdev ! i) AND VFIO_REGION_INFO_FLAG_READ \<noteq> 0"
    by (simp only: flags flag_tests(3)) simp
  have rest: "region_flags (regions vdev ! i)
         AND NOT (VFIO_REGION_INFO_FLAG_READ OR VFIO_REGION_INFO_FLAG_WRITE
                  OR VFIO_REGION_INFO_FLAG_MMAP) = 0"
    by (simp only: flags flag_tests(4))
  from addr size' mmap fw fr rest show ?thesis by (intro conjI)
qed

theorem open_device_region_flags_witness:
  "cdx_device_ok scenario_device
   \<and> vfio_cdx_open_device scenario_config True \<lparr>regions = []\<rparr> scenario_device = Inr scenario_session
   \<and> region_flags (regions scenario_session ! 0)
       = VFIO_REGION_INFO_FLAG_READ OR VFIO_REGION_INFO_FLAG_WRITE OR VFIO_REGION_INFO_FLAG_MMAP
   \<and> region_flags (regions scenario_session ! 1) = VFIO_REGION_INFO_FLAG_READ
   \<and> region_flags (regions scenario_session ! 0) AND VFIO_REGION_INFO_FLAG_MMAP \<noteq> 0
   \<and> region_flags (regions scenario_session ! 1) AND VFIO_REGION_INFO_FLAG_MMAP = 0
   \<and> region_flags (regions scenario_session ! 1) AND VFIO_REGION_INFO_FLAG_WRITE = 0"
proof -
  have ok: "cdx_device_ok scenario_device"
    by (simp add: cdx_device_ok_def scenario_device_def)
  have i0: "0 < unat (res_count scenario_device)" and i1: "1 < unat (res_count scenario_device)"
    by (simp_all add: scenario_device_def)
  show ?thesis
    using ok scenario_open
      open_device_region_flags [OF ok scenario_open i0]
      open_device_region_flags [OF ok scenario_open i1]
    by (simp add: scenario_session_def VFIO_REGION_INFO_FLAG_MMAP_def VFIO_REGION_INFO_FLAG_READ_def
      VFIO_REGION_INFO_FLAG_WRITE_def)
qed


section \<open>Mapping a region\<close>

lemma unat_ucast_u8_u32: "unat (ucast (w :: u8) :: u32) = unat w"
proof -
  have "unat w < 2 ^ 8" using unsigned_less [of w] by simp
  then have "unat w < 2 ^ 32" by (rule less_trans) simp
  then show ?thesis by (simp add: unsigned_ucast_eq take_bit_nat_eq_self)
qed

lemma index_in_range:
  "index < ucast (res_count dev) \<Longrightarrow> unat (index :: u32) < unat (res_count dev)"
  by (simp add: word_less_nat_alt unat_ucast_u8_u32)

lemma mmap_in_bounds:
  assumes "length (regions vdev) = unat (res_count dev)"
  shows "vfio_cdx_mmap c vdev dev vma \<noteq> Out_of_bounds"
proof (cases "mmap_index c (vm_pgoff vma) < ucast (res_count dev)")
  case True
  then have "unat (mmap_index c (vm_pgoff vma)) < length (regions vdev)"
    using assms by (simp add: index_in_range)
  then show ?thesis
    by (simp add: vfio_cdx_mmap_def vfio_cdx_mmap_mmio_def Let_def)
next
  case False
  then show ?thesis
    by (simp add: vfio_cdx_mmap_def Let_def not_less)
qed

lemma small_index_bits:
  fixes i :: u32
  assumes "i < ucast (rc :: u8)" and "bit i n"
  shows "n < 8"
proof -
  have "unat i < unat rc" using assms(1) by (simp add: word_less_nat_alt unat_ucast_u8_u32)
  moreover have "unat rc < 2 ^ 8" using unsigned_less [of rc] by simp
  ultimately have "unat i < 2 ^ 8" by simp
  then have "i < 2 ^ 8" by (simp add: word_less_nat_alt)
  then have "i AND mask 8 = i" by (rule less_mask_eq)
  then have "take_bit 8 i = i" by (simp add: take_bit_eq_mask)
  then have "bit (take_bit 8 i) n" using assms(2) by simp
  then show ?thesis by (simp add: bit_simps)
qed

lemma index_roundtrip:
  assumes "kconfig_ok c" and "i < ucast (res_count dev)"
  shows "mmap_index c (offset_to_pgoff c (vfio_cdx_index_to_offset c i)) = i"
proof -
  let ?S = "VFIO_CDX_OFFSET_SHIFT c" and ?P = "PAGE_SHIFT c"
  have S: "?P \<le> ?S" "?S \<le> 56" using assms(1) by (simp_all add: kconfig_ok_def)
  have "(ucast (drop_bit (?S - ?P) (drop_bit ?P (push_bit ?S (ucast i :: u64)))) :: u32) = i"
  proof (rule bit_word_eqI)
    fix n assume "n < LENGTH(32)"
    show "bit (ucast (drop_bit (?S - ?P) (drop_bit ?P (push_bit ?S (ucast i :: u64)))) :: u32) n
          = bit i n"
      using S small_index_bits [OF assms(2), of n]
      by (auto simp add: bit_simps dest: bit_imp_le_length)
  qed
  then show ?thesis
    by (simp add: mmap_index_def offset_to_pgoff_def vfio_cdx_index_to_offset_def)
qed

lemma pgoff_mask:
  assumes "k < 32"
  shows "(w :: u64) AND ucast ((push_bit k 1 :: u32) - 1) = take_bit k w"
proof -
  have "(push_bit k 1 :: u32) - 1 = mask k"
    by (simp add: mask_eq_decr_exp push_bit_eq_mult)
  moreover have "(ucast (mask k :: u32) :: u64) = mask k"
    using assms by (intro bit_word_eqI) (auto simp add: bit_simps)
  ultimately show ?thesis by (simp add: take_bit_eq_mask)
qed

lemma unat_pow2_u64:
  assumes "n < 64"
  shows "unat (2 ^ n :: u64) = 2 ^ n"
proof -
  have lt: "(2 :: nat) ^ n < 2 ^ LENGTH(64)"
    using assms by (intro power_strict_increasing) simp_all
  have "unat (of_nat (2 ^ n) :: u64) = 2 ^ n mod 2 ^ LENGTH(64)"
    by (rule unat_of_nat)
  also have "\<dots> = 2 ^ n" using lt by (rule mod_less)
  finally show ?thesis by simp
qed

lemma unat_shift_u64:
  fixes x :: u64
  assumes "unat x * 2 ^ p < 2 ^ 64" and "p < 64"
  shows "unat (push_bit p x) = unat x * 2 ^ p"
proof -
  have "unat x * unat (2 ^ p :: u64) < 2 ^ LENGTH(64)"
    using assms by (simp only: unat_pow2_u64) simp
  then have "unat (x * 2 ^ p) = unat x * unat (2 ^ p :: u64)"
    by (simp only: unat_mult_lem)
  then show ?thesis
    using assms(2) by (simp only: push_bit_eq_mult unat_pow2_u64)
qed

lemma unat_base:
  assumes "k + p \<le> 64" and "p < 64"
  shows "unat (push_bit p (take_bit k (w :: u64))) = (unat w mod 2 ^ k) * 2 ^ p"
proof -
  have "unat w mod 2 ^ k < 2 ^ k" by simp
  then have "(unat w mod 2 ^ k) * 2 ^ p < 2 ^ k * 2 ^ p" by simp
  also have "\<dots> = 2 ^ (k + p)" by (simp add: power_add)
  also have "\<dots> \<le> (2 :: nat) ^ 64" using assms by (intro power_increasing) simp_all
  finally have b: "(unat w mod 2 ^ k) * 2 ^ p < 2 ^ 64" .
  have "unat (take_bit k w) = take_bit k (unat w)"
    by (simp only: unsigned_take_bit_eq)
  then have t: "unat (take_bit k w) = unat w mod 2 ^ k"
    by (simp only: take_bit_eq_mod)
  have "unat (push_bit p (take_bit k w)) = unat (take_bit k w) * 2 ^ p"
    using b assms(2) by (intro unat_shift_u64) (simp_all only: t)
  then show ?thesis by (simp only: t)
qed

lemma unat_page_size:
  assumes "PAGE_SHIFT c < 64"
  shows "unat (PAGE_SIZE c) = 2 ^ PAGE_SHIFT c"
  using unat_pow2_u64 [OF assms] by (simp add: PAGE_SIZE_def push_bit_eq_mult)

lemma mmio_checks:
  assumes "kconfig_ok c" and "vma_user_range vma"
  shows "vfio_cdx_mmap_mmio c region vma = Return (- EINVAL) \<longleftrightarrow>
     unat (region_size region) < 2 ^ PAGE_SHIFT c
     \<or> unat (region_size region)
         < (unat (vm_pgoff vma) mod 2 ^ (VFIO_CDX_OFFSET_SHIFT c - PAGE_SHIFT c)) * 2 ^ PAGE_SHIFT c
           + unat (vm_end vma - vm_start vma)"
proof -
  let ?S = "VFIO_CDX_OFFSET_SHIFT c" and ?P = "PAGE_SHIFT c"
  let ?base = "push_bit ?P (take_bit (?S - ?P) (vm_pgoff vma))"
  let ?size = "vm_end vma - vm_start vma"
  have S: "?P \<le> ?S" "?S - ?P < 32" "?S \<le> 56" using assms(1) by (simp_all add: kconfig_ok_def)
  have ub: "unat ?base = (unat (vm_pgoff vma) mod 2 ^ (?S - ?P)) * 2 ^ ?P"
    using S by (intro unat_base) simp_all
  have "unat ?base < 2 ^ (?S - ?P) * 2 ^ ?P" unfolding ub by simp
  also have "\<dots> = 2 ^ ?S" using S by (simp flip: power_add)
  also have "\<dots> \<le> (2 :: nat) ^ 56" using S by (intro power_increasing) simp_all
  finally have bb: "unat ?base < 2 ^ 56" .
  have "unat ?size \<le> unat (vm_end vma)"
    using assms(2) by (simp add: vma_user_range_def unat_sub word_le_nat_alt)
  moreover have "unat (vm_end vma) \<le> 2 ^ 63"
    using assms(2) by (simp add: vma_user_range_def word_le_nat_alt)
  ultimately have sb: "unat ?size \<le> 2 ^ 63" by simp
  have sum: "unat (?base + ?size) = unat ?base + unat ?size"
    using bb sb by (simp add: unat_word_ariths)
  have ps: "unat (PAGE_SIZE c) = 2 ^ ?P" using S by (intro unat_page_size) simp
  show ?thesis
    unfolding vfio_cdx_mmap_mmio_def Let_def pgoff_mask [OF S(2)]
    by (simp add: word_less_nat_alt sum ub ps)
qed

lemma mmio_small:
  assumes "kconfig_ok c" and "unat (region_size region) < 2 ^ PAGE_SHIFT c"
  shows "vfio_cdx_mmap_mmio c region vma = Return (- EINVAL)"
proof -
  have "PAGE_SHIFT c < 64" using assms(1) by (simp add: kconfig_ok_def)
  then have "unat (PAGE_SIZE c) = 2 ^ PAGE_SHIFT c" by (rule unat_page_size)
  then have "region_size region < PAGE_SIZE c"
    using assms(2) by (simp add: word_less_nat_alt)
  then show ?thesis by (simp add: vfio_cdx_mmap_mmio_def Let_def)
qed

lemma mmap_cases:
  assumes "length (regions vdev) = unat (res_count dev)"
    and "mmap_index c (vm_pgoff vma) < ucast (res_count dev)"
  shows "vfio_cdx_mmap c vdev dev vma = Return (- EINVAL)
     \<or> vfio_cdx_mmap c vdev dev vma
         = vfio_cdx_mmap_mmio c (regions vdev ! unat (mmap_index c (vm_pgoff vma))) vma"
proof -
  have "unat (mmap_index c (vm_pgoff vma)) < length (regions vdev)"
    using assms by (simp add: index_in_range)
  then show ?thesis
    using assms(2) by (simp add: vfio_cdx_mmap_def Let_def not_le)
qed

lemma scenario_config_ok: "kconfig_ok scenario_config"
  by (simp add: kconfig_ok_def scenario_config_def)

lemma scenario_session_length: "length (regions scenario_session) = unat (res_count scenario_device)"
  by (simp add: scenario_session_def scenario_device_def)

lemma readonly_open:
  "vfio_cdx_open_device scenario_config True \<lparr>regions = []\<rparr> readonly_device = Inr readonly_session"
  by (simp add: vfio_cdx_open_device_def scenario_config_def readonly_device_def readonly_session_def
      open_region_def zero_region_def resource_size_def PAGE_MASK_def PAGE_SIZE_def
      VFIO_REGION_INFO_FLAG_MMAP_def VFIO_REGION_INFO_FLAG_READ_def
      VFIO_REGION_INFO_FLAG_WRITE_def IORESOURCE_READONLY_def Let_def)

lemmas mmap_eval =
  vfio_cdx_mmap_def vfio_cdx_mmap_mmio_def mmap_index_def mmap_read_denied_def user_vma_def
  scenario_config_def scenario_device_def scenario_session_def
  PAGE_SIZE_def VFIO_REGION_INFO_FLAG_MMAP_def VFIO_REGION_INFO_FLAG_READ_def
  VFIO_REGION_INFO_FLAG_WRITE_def VM_READ_def VM_WRITE_def EINVAL_def Let_def

text \<open>
  C2: for every valid region index, decoding the page-number form of the offset that
  encodes it gives the index back; and the decoding in \<open>vfio_cdx_mmap\<close> is total: for
  every page offset, also one that encodes no valid region, the function returns and
  never reads outside the region array of the session.
\<close>

theorem offset_roundtrip_total:
  assumes "kconfig_ok c"
  shows "(i < ucast (res_count dev) \<longrightarrow>
            mmap_index c (offset_to_pgoff c (vfio_cdx_index_to_offset c i)) = i)
     \<and> (length (regions vdev) = unat (res_count dev) \<longrightarrow>
            vfio_cdx_mmap c vdev dev vma \<noteq> Out_of_bounds)"
  using index_roundtrip [OF assms] mmap_in_bounds by blast

theorem offset_roundtrip_total_witness:
  "kconfig_ok scenario_config
   \<and> (1 :: u32) < ucast (res_count scenario_device)
   \<and> vfio_cdx_index_to_offset scenario_config 1 = 0x10000000000
   \<and> mmap_index scenario_config (offset_to_pgoff scenario_config (vfio_cdx_index_to_offset scenario_config 1)) = 1
   \<and> length (regions scenario_session) = unat (res_count scenario_device)
   \<and> vfio_cdx_mmap scenario_config scenario_session scenario_device (user_vma 0xFFFFFFFFFFFFF 0x1000 1)
       \<noteq> Out_of_bounds"
  using scenario_config_ok scenario_session_length
    offset_roundtrip_total [OF scenario_config_ok, of 1 scenario_device scenario_session
      "user_vma 0xFFFFFFFFFFFFF 0x1000 1"]
  by (simp add: scenario_device_def vfio_cdx_index_to_offset_def scenario_config_def)

text \<open>
  C3: a mapping request fails with \<open>-EINVAL\<close>, and \<open>io_remap_pfn_range\<close> is not
  reached, whenever the decoded region index is at least the region count, or the
  addressed region is smaller than a page, or the decoded page offset in bytes plus the
  requested length exceeds the size of the region; in particular whenever the requested
  length alone exceeds it. The sums are those of natural numbers; the request is the
  range of a user process.
\<close>

theorem mmap_rejects_bad_range:
  assumes "kconfig_ok c" and "length (regions vdev) = unat (res_count dev)"
  shows "(ucast (res_count dev) \<le> mmap_index c (vm_pgoff vma) \<longrightarrow>
            vfio_cdx_mmap c vdev dev vma = Return (- EINVAL))
     \<and> (mmap_index c (vm_pgoff vma) < ucast (res_count dev)
         \<and> unat (region_size (regions vdev ! unat (mmap_index c (vm_pgoff vma))))
             < 2 ^ PAGE_SHIFT c \<longrightarrow>
            vfio_cdx_mmap c vdev dev vma = Return (- EINVAL))
     \<and> (mmap_index c (vm_pgoff vma) < ucast (res_count dev) \<and> vma_user_range vma
         \<and> (unat (region_size (regions vdev ! unat (mmap_index c (vm_pgoff vma))))
               < (unat (vm_pgoff vma) mod 2 ^ (VFIO_CDX_OFFSET_SHIFT c - PAGE_SHIFT c))
                   * 2 ^ PAGE_SHIFT c
                 + unat (vm_end vma - vm_start vma)
             \<or> unat (region_size (regions vdev ! unat (mmap_index c (vm_pgoff vma))))
               < unat (vm_end vma - vm_start vma)) \<longrightarrow>
            vfio_cdx_mmap c vdev dev vma = Return (- EINVAL))"
proof (intro conjI impI)
  assume "ucast (res_count dev) \<le> mmap_index c (vm_pgoff vma)"
  then show "vfio_cdx_mmap c vdev dev vma = Return (- EINVAL)"
    by (simp add: vfio_cdx_mmap_def Let_def)
next
  let ?R = "regions vdev ! unat (mmap_index c (vm_pgoff vma))"
  assume h: "mmap_index c (vm_pgoff vma) < ucast (res_count dev)
     \<and> unat (region_size ?R) < 2 ^ PAGE_SHIFT c"
  then have "vfio_cdx_mmap_mmio c ?R vma = Return (- EINVAL)"
    using assms(1) by (simp add: mmio_small)
  then show "vfio_cdx_mmap c vdev dev vma = Return (- EINVAL)"
    using mmap_cases [OF assms(2), of c vma] h by auto
next
  let ?R = "regions vdev ! unat (mmap_index c (vm_pgoff vma))"
  assume h: "mmap_index c (vm_pgoff vma) < ucast (res_count dev) \<and> vma_user_range vma
         \<and> (unat (region_size ?R)
               < (unat (vm_pgoff vma) mod 2 ^ (VFIO_CDX_OFFSET_SHIFT c - PAGE_SHIFT c))
                   * 2 ^ PAGE_SHIFT c
                 + unat (vm_end vma - vm_start vma)
             \<or> unat (region_size ?R) < unat (vm_end vma - vm_start vma))"
  then have "unat (region_size ?R)
               < (unat (vm_pgoff vma) mod 2 ^ (VFIO_CDX_OFFSET_SHIFT c - PAGE_SHIFT c))
                   * 2 ^ PAGE_SHIFT c
                 + unat (vm_end vma - vm_start vma)"
    by auto
  then have "vfio_cdx_mmap_mmio c ?R vma = Return (- EINVAL)"
    using assms(1) h by (simp add: mmio_checks)
  then show "vfio_cdx_mmap c vdev dev vma = Return (- EINVAL)"
    using mmap_cases [OF assms(2), of c vma] h by auto
qed

theorem mmap_rejects_bad_range_witness:
  "kconfig_ok scenario_config
   \<and> length (regions scenario_session) = unat (res_count scenario_device)
   \<and> vma_user_range (user_vma 0 0x2000 1)
   \<and> vfio_cdx_mmap scenario_config scenario_session scenario_device (user_vma 0x20000000 0x1000 1)
       = Return (- 22)
   \<and> vfio_cdx_mmap scenario_config scenario_session scenario_device (user_vma 0x10000000 0x1000 1)
       = Return (- 22)
   \<and> vfio_cdx_mmap scenario_config scenario_session scenario_device (user_vma 0 0x2000 1)
       = Return (- 22)
   \<and> vfio_cdx_mmap scenario_config scenario_session scenario_device (user_vma 1 0x1000 1)
       = Return (- 22)
   \<and> vfio_cdx_mmap scenario_config scenario_session scenario_device (user_vma 0 0x1000 3)
       = Io_remap_pfn_range
           \<lparr>vm_start = 0x7F0000000000, vm_end = 0x7F0000001000, vm_pgoff = 1, vm_flags = 3,
            vm_page_prot = Pgprot_device (Pgprot 0)\<rparr>
           0x7F0000000000 1 0x1000 (Pgprot_device (Pgprot 0))"
proof -
  have u: "vma_user_range (user_vma 0 0x2000 1)" "vma_user_range (user_vma 1 0x1000 1)"
    by (simp_all add: vma_user_range_def user_vma_def)
  have ok: "vfio_cdx_mmap scenario_config scenario_session scenario_device (user_vma 0 0x1000 3)
       = Io_remap_pfn_range
           \<lparr>vm_start = 0x7F0000000000, vm_end = 0x7F0000001000, vm_pgoff = 1, vm_flags = 3,
            vm_page_prot = Pgprot_device (Pgprot 0)\<rparr>
           0x7F0000000000 1 0x1000 (Pgprot_device (Pgprot 0))"
    by (simp add: mmap_eval)
  show ?thesis
    using scenario_config_ok scenario_session_length u ok
      mmap_rejects_bad_range [OF scenario_config_ok scenario_session_length,
        of "user_vma 0x20000000 0x1000 1"]
      mmap_rejects_bad_range [OF scenario_config_ok scenario_session_length,
        of "user_vma 0x10000000 0x1000 1"]
      mmap_rejects_bad_range [OF scenario_config_ok scenario_session_length, of "user_vma 0 0x2000 1"]
      mmap_rejects_bad_range [OF scenario_config_ok scenario_session_length, of "user_vma 1 0x1000 1"]
    by (simp add: mmap_index_def user_vma_def scenario_config_def scenario_device_def scenario_session_def
        EINVAL_def)
qed

text \<open>
  C4, as stated: a mapping request is refused with a permission error when the region
  cannot be mapped, or when write access is asked of a region that is not writable.
  This fails: in both cases the code returns \<open>-EINVAL\<close>, not \<open>-EPERM\<close> or \<open>-EACCES\<close>.
\<close>

theorem mmap_permission_counterexample:
  "region_flags (regions scenario_session ! 1) AND VFIO_REGION_INFO_FLAG_MMAP = 0
   \<and> vfio_cdx_mmap scenario_config scenario_session scenario_device (user_vma 0x10000000 0x1000 VM_READ)
       = Return (- EINVAL)
   \<and> vfio_cdx_mmap scenario_config scenario_session scenario_device (user_vma 0x10000000 0x1000 VM_READ)
       \<noteq> Return (- EPERM)
   \<and> vfio_cdx_mmap scenario_config scenario_session scenario_device (user_vma 0x10000000 0x1000 VM_READ)
       \<noteq> Return (- EACCES)
   \<and> region_flags (regions readonly_session ! 0) AND VFIO_REGION_INFO_FLAG_WRITE = 0
   \<and> vm_flags (user_vma 0 0x1000 (VM_READ OR VM_WRITE)) AND VM_WRITE \<noteq> 0
   \<and> vfio_cdx_mmap scenario_config readonly_session readonly_device
         (user_vma 0 0x1000 (VM_READ OR VM_WRITE)) = Return (- EINVAL)
   \<and> vfio_cdx_mmap scenario_config readonly_session readonly_device
         (user_vma 0 0x1000 (VM_READ OR VM_WRITE)) \<noteq> Return (- EPERM)
   \<and> vfio_cdx_mmap scenario_config readonly_session readonly_device
         (user_vma 0 0x1000 (VM_READ OR VM_WRITE)) \<noteq> Return (- EACCES)"
  by (simp add: mmap_eval readonly_device_def readonly_session_def EPERM_def EACCES_def)

text \<open>
  C4, amended: a mapping request that addresses a region of the session fails with
  \<open>-EINVAL\<close> when the region lacks the mapping flag, or when the requested access
  includes write and the region lacks the write flag.
\<close>

theorem mmap_rejects_bad_access:
  assumes "length (regions vdev) = unat (res_count dev)"
    and "mmap_index c (vm_pgoff vma) < ucast (res_count dev)"
    and "region_flags (regions vdev ! unat (mmap_index c (vm_pgoff vma)))
           AND VFIO_REGION_INFO_FLAG_MMAP = 0
         \<or> (vm_flags vma AND VM_WRITE \<noteq> 0
            \<and> region_flags (regions vdev ! unat (mmap_index c (vm_pgoff vma)))
                 AND VFIO_REGION_INFO_FLAG_WRITE = 0)"
  shows "vfio_cdx_mmap c vdev dev vma = Return (- EINVAL)"
proof -
  have "unat (mmap_index c (vm_pgoff vma)) < length (regions vdev)"
    using assms(1,2) by (simp add: index_in_range)
  then show ?thesis
    using assms(2,3) by (auto simp add: vfio_cdx_mmap_def Let_def not_le)
qed

theorem mmap_rejects_bad_access_witness:
  "vfio_cdx_open_device scenario_config True \<lparr>regions = []\<rparr> readonly_device = Inr readonly_session
   \<and> length (regions readonly_session) = unat (res_count readonly_device)
   \<and> mmap_index scenario_config (vm_pgoff (user_vma 0 0x1000 3)) < ucast (res_count readonly_device)
   \<and> vm_flags (user_vma 0 0x1000 3) AND VM_WRITE \<noteq> 0
   \<and> region_flags (regions readonly_session ! 0) AND VFIO_REGION_INFO_FLAG_WRITE = 0
   \<and> vfio_cdx_mmap scenario_config readonly_session readonly_device (user_vma 0 0x1000 3)
       = Return (- 22)
   \<and> vfio_cdx_mmap scenario_config readonly_session readonly_device (user_vma 0 0x1000 1)
       = Io_remap_pfn_range
           \<lparr>vm_start = 0x7F0000000000, vm_end = 0x7F0000001000, vm_pgoff = 2, vm_flags = 1,
            vm_page_prot = Pgprot_device (Pgprot 0)\<rparr>
           0x7F0000000000 2 0x1000 (Pgprot_device (Pgprot 0))"
proof -
  have l: "length (regions readonly_session) = unat (res_count readonly_device)"
    by (simp add: readonly_session_def readonly_device_def)
  have i: "mmap_index scenario_config (vm_pgoff (user_vma 0 0x1000 3)) < ucast (res_count readonly_device)"
    by (simp add: mmap_eval readonly_device_def readonly_session_def)
  have f: "region_flags (regions readonly_session ! unat (mmap_index scenario_config (vm_pgoff (user_vma 0 0x1000 3))))
           AND VFIO_REGION_INFO_FLAG_MMAP = 0
         \<or> (vm_flags (user_vma 0 0x1000 3) AND VM_WRITE \<noteq> 0
            \<and> region_flags (regions readonly_session ! unat (mmap_index scenario_config (vm_pgoff (user_vma 0 0x1000 3))))
                 AND VFIO_REGION_INFO_FLAG_WRITE = 0)"
    by (simp add: mmap_eval readonly_device_def readonly_session_def)
  have ok: "vfio_cdx_mmap scenario_config readonly_session readonly_device (user_vma 0 0x1000 1)
       = Io_remap_pfn_range
           \<lparr>vm_start = 0x7F0000000000, vm_end = 0x7F0000001000, vm_pgoff = 2, vm_flags = 1,
            vm_page_prot = Pgprot_device (Pgprot 0)\<rparr>
           0x7F0000000000 2 0x1000 (Pgprot_device (Pgprot 0))"
    by (simp add: mmap_eval readonly_device_def readonly_session_def)
  show ?thesis
    using readonly_open l i ok mmap_rejects_bad_access [OF l i f]
    by (simp add: EINVAL_def user_vma_def readonly_session_def VM_WRITE_def
        VFIO_REGION_INFO_FLAG_WRITE_def)
qed

text \<open>
  C10: every region descriptor built at session open has the read flag, whatever the
  flags of the resource; hence the test of \<open>vfio_cdx_mmap\<close> that rejects a read mapping
  of a region without the read flag is false for every request that addresses a region of
  an opened session.
\<close>

theorem open_device_regions_readable:
  assumes "cdx_device_ok dev"
    and "vfio_cdx_open_device c ok vdev0 dev = Inr vdev"
  shows "(\<forall>i < unat (res_count dev).
            region_flags (regions vdev ! i) AND VFIO_REGION_INFO_FLAG_READ \<noteq> 0)
     \<and> (\<forall>vma. mmap_index c (vm_pgoff vma) < ucast (res_count dev) \<longrightarrow>
            \<not> mmap_read_denied (regions vdev ! unat (mmap_index c (vm_pgoff vma))) vma)"
proof -
  have r: "region_flags (regions vdev ! i) AND VFIO_REGION_INFO_FLAG_READ \<noteq> 0"
    if "i < unat (res_count dev)" for i
    unfolding open_device_regions(2) [OF assms(2) that] open_region_zero
    by (simp only: vfio_cdx_region.simps flag_tests(3)) simp
  show ?thesis
    using r by (auto simp add: mmap_read_denied_def dest: index_in_range)
qed

theorem open_device_regions_readable_witness:
  "cdx_device_ok scenario_device
   \<and> vfio_cdx_open_device scenario_config True \<lparr>regions = []\<rparr> scenario_device = Inr scenario_session
   \<and> region_flags (regions scenario_session ! 0) AND VFIO_REGION_INFO_FLAG_READ \<noteq> 0
   \<and> region_flags (regions scenario_session ! 1) AND VFIO_REGION_INFO_FLAG_READ \<noteq> 0
   \<and> mmap_index scenario_config (vm_pgoff (user_vma 0x10000000 0x1000 VM_READ))
       < ucast (res_count scenario_device)
   \<and> \<not> mmap_read_denied
         (regions scenario_session ! unat (mmap_index scenario_config (vm_pgoff (user_vma 0x10000000 0x1000 VM_READ))))
         (user_vma 0x10000000 0x1000 VM_READ)"
proof -
  have ok: "cdx_device_ok scenario_device"
    by (simp add: cdx_device_ok_def scenario_device_def)
  note t = open_device_regions_readable [OF ok scenario_open]
  have i0: "0 < unat (res_count scenario_device)" and i1: "1 < unat (res_count scenario_device)"
    by (simp_all add: scenario_device_def)
  have ix: "mmap_index scenario_config (vm_pgoff (user_vma 0x10000000 0x1000 VM_READ))
       < ucast (res_count scenario_device)"
    by (simp add: mmap_eval)
  show ?thesis
    using ok scenario_open ix
      t [THEN conjunct1, rule_format, OF i0] t [THEN conjunct1, rule_format, OF i1]
      t [THEN conjunct2, rule_format, OF ix]
    by simp
qed

end
